theory Spec2Isabelle
  imports Main "HOL-Library.Word"
begin

unbundle bit_operations_syntax

section \<open>Configuration record and C strings\<close>

text \<open>
  \<^verbatim>\<open>structs.h\<close>: the persisted record is four \<^verbatim>\<open>char[20]\<close> buffers followed by a
  \<^verbatim>\<open>uint16_t\<close>; 82 bytes, no padding. A buffer is a list of bytes; \<open>wf_cfg\<close> says
  that each buffer has its 20 bytes and holds a NUL, that is, a terminated C string.
\<close>

type_synonym byte = "8 word"

record configuration =
  location :: "byte list"
  name :: "byte list"
  wifi_ssid :: "byte list"
  wifi_pwd :: "byte list"
  checksum :: "16 word"

definition FIELD_SIZE :: nat where
  "FIELD_SIZE = 20"

definition CONFIG_SIZE :: nat where
  "CONFIG_SIZE = 82"

definition wf_cfg :: "configuration \<Rightarrow> bool" where
  "wf_cfg c \<longleftrightarrow>
     length (location c) = FIELD_SIZE \<and> length (name c) = FIELD_SIZE \<and>
     length (wifi_ssid c) = FIELD_SIZE \<and> length (wifi_pwd c) = FIELD_SIZE \<and>
     0 \<in> set (location c) \<and> 0 \<in> set (name c) \<and>
     0 \<in> set (wifi_ssid c) \<and> 0 \<in> set (wifi_pwd c)"

text \<open>The bytes of a 16-bit value in memory (little endian, as on both targets).\<close>

definition u16_bytes :: "16 word \<Rightarrow> byte list" where
  "u16_bytes w = [ucast w, ucast (drop_bit 8 w)]"

definition u16_of :: "byte \<Rightarrow> byte \<Rightarrow> 16 word" where
  "u16_of lo hi = ucast lo OR push_bit 8 (ucast hi)"

text \<open>The object representation that \<^verbatim>\<open>reinterpret_cast<const uint8_t*>(&cfg)\<close> walks.\<close>

definition to_bytes :: "configuration \<Rightarrow> byte list" where
  "to_bytes c = location c @ name c @ wifi_ssid c @ wifi_pwd c @ u16_bytes (checksum c)"

definition of_bytes :: "byte list \<Rightarrow> configuration" where
  "of_bytes bs =
     \<lparr>location = take 20 bs,
      name = take 20 (drop 20 bs),
      wifi_ssid = take 20 (drop 40 bs),
      wifi_pwd = take 20 (drop 60 bs),
      checksum = u16_of (bs ! 80) (bs ! 81)\<rparr>"

text \<open>
  The string a \<^verbatim>\<open>char\<close> buffer holds: its bytes before the first NUL. On a buffer of
  the record that holds no NUL the C functions read on into the next member; the model stops
  at the end of the buffer. So \<open>strlen\<close> and the string handed to \<open>putString\<close> are those
  of the code on a buffer that holds a NUL, \<open>strlen buf = 0\<close> is the code's test on every
  buffer, and \<open>strcmp0\<close> is the code's comparison when one of the two buffers holds a NUL.
  Results that depend on more than that are stated for records that satisfy \<open>wf_cfg\<close>.
\<close>

definition cstr :: "byte list \<Rightarrow> byte list" where
  "cstr buf = takeWhile (\<lambda>b. b \<noteq> 0) buf"

definition strlen :: "byte list \<Rightarrow> nat" where
  "strlen buf = length (cstr buf)"

text \<open>\<open>strcmp0 a b\<close> is \<^verbatim>\<open>strcmp(a, b) == 0\<close>.\<close>

definition strcmp0 :: "byte list \<Rightarrow> byte list \<Rightarrow> bool" where
  "strcmp0 a b \<longleftrightarrow> cstr a = cstr b"

text \<open>
  \<^verbatim>\<open>strlcpy(dst, src, n)\<close>: at most \<open>n - 1\<close> characters of the source string, then a NUL;
  the bytes of \<open>dst\<close> behind the NUL stay as they were.
\<close>

definition strlcpy :: "byte list \<Rightarrow> byte list \<Rightarrow> nat \<Rightarrow> byte list" where
  "strlcpy dst src n =
     (if n = 0 then dst
      else let s = take (n - 1) (cstr src) in s @ [0] @ drop (length s + 1) dst)"

text \<open>A string literal as bytes, and a literal in a zero-filled 20-byte buffer.\<close>

definition c_str :: "string \<Rightarrow> byte list" where
  "c_str s = map of_char s"

definition field20 :: "string \<Rightarrow> byte list" where
  "field20 s = take 19 (c_str s) @ replicate (20 - length (take 19 (c_str s))) 0"

section \<open>ChecksumCodec\<close>

text \<open>
  \<^verbatim>\<open>storage.cpp\<close>, \<open>calculateChecksum\<close>: a \<^verbatim>\<open>uint16_t\<close> accumulator, every byte of the
  record added in turn, the two bytes of the checksum field included.
\<close>

fun checksum_loop :: "byte list \<Rightarrow> 16 word \<Rightarrow> 16 word" where
  "checksum_loop [] acc = acc"
| "checksum_loop (b # bs) acc = checksum_loop bs (acc + ucast b)"

definition calculateChecksum :: "configuration \<Rightarrow> 16 word" where
  "calculateChecksum cfg = checksum_loop (to_bytes cfg) 0"

section \<open>Storage state\<close>

datatype StorageError =
  NONE | NOT_INITIALIZED | WRITE_FAILED | READ_FAILED | VALIDATION_FAILED
  | COMMIT_FAILED | INVALID_FIELD

text \<open>
  The static members of class \<open>Storage\<close>; \<open>backend\<close> is \<open>eeprom\<close> on the ESP8266
  build and \<open>preferences\<close> on the ESP32 build.
\<close>

record 'b Storage =
  backend :: 'b
  initialized :: bool
  lastError :: StorageError

definition getLastError :: "'b Storage \<Rightarrow> StorageError" where
  "getLastError s = lastError s"

section \<open>Block-storage backend (ESP8266, EEPROM\_Rotate)\<close>

text \<open>
  The EEPROM library is not part of the repository. Its image, the one \<open>read\<close> and
  \<open>get\<close> see, is a map from addresses to bytes. What the hardware answers is a
  parameter of every operation: whether \<open>commit\<close> succeeds, and what a cell holds after
  a byte is written to it (the identity on a sound device).
\<close>

type_synonym eeprom = "nat \<Rightarrow> byte"

record device =
  commit_ok :: bool
  cell :: "nat \<Rightarrow> byte \<Rightarrow> byte"

definition sound_device :: device where
  "sound_device = \<lparr>commit_ok = True, cell = (\<lambda>a b. b)\<rparr>"

definition EEPROM_START :: nat where
  "EEPROM_START = 128"

text \<open>A device whose marker cell reads 0 whatever is written to it.\<close>

definition stuck_marker_device :: device where
  "stuck_marker_device = \<lparr>commit_ok = True, cell = (\<lambda>a b. if a = EEPROM_START then 0 else b)\<rparr>"

definition eeprom_write :: "device \<Rightarrow> nat \<Rightarrow> byte \<Rightarrow> eeprom \<Rightarrow> eeprom" where
  "eeprom_write dev a b m = m(a := cell dev a b)"

definition eeprom_read :: "nat \<Rightarrow> eeprom \<Rightarrow> byte" where
  "eeprom_read a m = m a"

fun eeprom_put_bytes :: "device \<Rightarrow> nat \<Rightarrow> byte list \<Rightarrow> eeprom \<Rightarrow> eeprom" where
  "eeprom_put_bytes dev a [] m = m"
| "eeprom_put_bytes dev a (b # bs) m = eeprom_put_bytes dev (Suc a) bs (eeprom_write dev a b m)"

definition eeprom_put :: "device \<Rightarrow> nat \<Rightarrow> configuration \<Rightarrow> eeprom \<Rightarrow> eeprom" where
  "eeprom_put dev a cfg m = eeprom_put_bytes dev a (to_bytes cfg) m"

definition eeprom_get :: "nat \<Rightarrow> eeprom \<Rightarrow> configuration" where
  "eeprom_get a m = of_bytes (map m [a ..< a + CONFIG_SIZE])"

text \<open>
  \<open>eeprom.begin\<close> loads the image that \<open>read\<close> and \<open>get\<close> see; the model keeps that
  one image, so opening leaves it as it is.
\<close>

definition begin_esp8266 :: "eeprom Storage \<Rightarrow> bool \<times> eeprom Storage" where
  "begin_esp8266 s =
     (if initialized s then (True, s)
      else let s1 = s\<lparr>initialized := True\<rparr> in
        if \<not> initialized s1 then (False, s1\<lparr>lastError := NOT_INITIALIZED\<rparr>)
        else (True, s1\<lparr>lastError := NONE\<rparr>))"

definition saveConfig_esp8266 ::
  "device \<Rightarrow> eeprom Storage \<Rightarrow> configuration \<Rightarrow> bool \<times> eeprom Storage" where
  "saveConfig_esp8266 dev s cfg =
     (if \<not> initialized s then (False, s\<lparr>lastError := NOT_INITIALIZED\<rparr>)
      else
        let cfg_with_checksum = cfg\<lparr>checksum := calculateChecksum cfg\<rparr>;
            e1 = eeprom_write dev EEPROM_START 1 (backend s);
            e2 = eeprom_put dev (EEPROM_START + 1) cfg_with_checksum e1;
            s1 = s\<lparr>backend := e2\<rparr>
        in if \<not> commit_ok dev then (False, s1\<lparr>lastError := COMMIT_FAILED\<rparr>)
           else
             let verify_marker = eeprom_read EEPROM_START e2;
                 verify_cfg = eeprom_get (EEPROM_START + 1) e2;
                 success = (verify_marker = 1 \<and>
                            checksum verify_cfg = checksum cfg_with_checksum \<and>
                            strcmp0 (name cfg) (name verify_cfg) \<and>
                            strcmp0 (location cfg) (location verify_cfg) \<and>
                            strcmp0 (wifi_ssid cfg) (wifi_ssid verify_cfg) \<and>
                            strcmp0 (wifi_pwd cfg) (wifi_pwd verify_cfg))
             in if \<not> success then (False, s1\<lparr>lastError := WRITE_FAILED\<rparr>)
                else (True, s1\<lparr>lastError := NONE\<rparr>))"

definition loadConfig_esp8266 ::
  "eeprom Storage \<Rightarrow> configuration \<Rightarrow> bool \<times> eeprom Storage \<times> configuration" where
  "loadConfig_esp8266 s cfg =
     (if \<not> initialized s then (False, s\<lparr>lastError := NOT_INITIALIZED\<rparr>, cfg)
      else
        let valid = eeprom_read EEPROM_START (backend s) in
        if valid \<noteq> 1 then (False, s\<lparr>lastError := VALIDATION_FAILED\<rparr>, cfg)
        else
          let cfg1 = eeprom_get (EEPROM_START + 1) (backend s);
              loaded_checksum = checksum cfg1;
              cfg2 = cfg1\<lparr>checksum := 0\<rparr>;
              calculated_checksum = calculateChecksum cfg2
          in if loaded_checksum \<noteq> calculated_checksum
             then (False, s\<lparr>lastError := VALIDATION_FAILED\<rparr>, cfg2)
             else if strlen (wifi_ssid cfg2) = 0 \<or> strlen (wifi_pwd cfg2) = 0
             then (False, s\<lparr>lastError := VALIDATION_FAILED\<rparr>, cfg2)
             else (True, s\<lparr>lastError := NONE\<rparr>, cfg2))"

text \<open>
  The local \<^verbatim>\<open>configuration cfg;\<close> of \<open>updateField\<close> is not initialised; \<open>loadConfig\<close>
  either fills all of it or makes \<open>updateField\<close> return, so any record can stand for it.
\<close>

definition uninit_cfg :: configuration where
  "uninit_cfg =
     \<lparr>location = replicate 20 0, name = replicate 20 0, wifi_ssid = replicate 20 0,
      wifi_pwd = replicate 20 0, checksum = 0\<rparr>"

definition updateField_esp8266 ::
  "device \<Rightarrow> eeprom Storage \<Rightarrow> byte list \<Rightarrow> byte list \<Rightarrow> bool \<times> eeprom Storage" where
  "updateField_esp8266 dev s field val =
     (if \<not> initialized s then (False, s\<lparr>lastError := NOT_INITIALIZED\<rparr>)
      else
        case loadConfig_esp8266 s uninit_cfg of (loaded, s1, cfg) \<Rightarrow>
          if \<not> loaded then (False, s1)
          else
            let edited =
              (if strcmp0 field (c_str ''name'')
                 then Some (cfg\<lparr>name := strlcpy (name cfg) val FIELD_SIZE\<rparr>)
               else if strcmp0 field (c_str ''location'')
                 then Some (cfg\<lparr>location := strlcpy (location cfg) val FIELD_SIZE\<rparr>)
               else if strcmp0 field (c_str ''wifi_ssid'')
                 then Some (cfg\<lparr>wifi_ssid := strlcpy (wifi_ssid cfg) val FIELD_SIZE\<rparr>)
               else if strcmp0 field (c_str ''wifi_pwd'')
                 then Some (cfg\<lparr>wifi_pwd := strlcpy (wifi_pwd cfg) val FIELD_SIZE\<rparr>)
               else None)
            in (case edited of
                  None \<Rightarrow> (False, s1\<lparr>lastError := INVALID_FIELD\<rparr>)
                | Some cfg' \<Rightarrow>
                    (case saveConfig_esp8266 dev s1 cfg' of (success, s2) \<Rightarrow>
                       (success, s2\<lparr>lastError := NONE\<rparr>))))"

definition clear_esp8266 :: "device \<Rightarrow> eeprom Storage \<Rightarrow> bool \<times> eeprom Storage" where
  "clear_esp8266 dev s =
     (if \<not> initialized s then (False, s\<lparr>lastError := NOT_INITIALIZED\<rparr>)
      else (commit_ok dev, s\<lparr>backend := eeprom_write dev EEPROM_START 0 (backend s)\<rparr>))"

section \<open>Key-value backend (ESP32, Preferences)\<close>

text \<open>
  The Preferences library is not part of the repository either. A namespace is a map from
  keys to typed values. \<open>putString\<close> answers with the number of characters it wrote and
  \<open>putUShort\<close> with the number of bytes, 0 when the write failed; as a condition a
  size counts as true when it is not 0. \<open>getString\<close> builds its result from a C string,
  so the result holds no NUL. Whether the namespace opens, whether a key can be
  written and whether the namespace can be erased are parameters.
\<close>

datatype pref_value = PString "byte list" | PUShort "16 word"

type_synonym preferences = "byte list \<rightharpoonup> pref_value"

record nvs_device =
  open_ok :: bool
  put_ok :: "byte list \<Rightarrow> bool"
  clear_ok :: bool

definition sound_nvs :: nvs_device where
  "sound_nvs = \<lparr>open_ok = True, put_ok = (\<lambda>k. True), clear_ok = True\<rparr>"

definition putString ::
  "nvs_device \<Rightarrow> byte list \<Rightarrow> byte list \<Rightarrow> preferences \<Rightarrow> nat \<times> preferences" where
  "putString dev key v p =
     (if put_ok dev (cstr key) then (strlen v, p(cstr key \<mapsto> PString (cstr v))) else (0, p))"

definition putUShort ::
  "nvs_device \<Rightarrow> byte list \<Rightarrow> 16 word \<Rightarrow> preferences \<Rightarrow> nat \<times> preferences" where
  "putUShort dev key v p =
     (if put_ok dev (cstr key) then (2, p(cstr key \<mapsto> PUShort v)) else (0, p))"

definition getString :: "byte list \<Rightarrow> byte list \<Rightarrow> preferences \<Rightarrow> byte list" where
  "getString key dflt p = cstr (case p (cstr key) of Some (PString v) \<Rightarrow> v | _ \<Rightarrow> dflt)"

definition getUShort :: "byte list \<Rightarrow> 16 word \<Rightarrow> preferences \<Rightarrow> 16 word" where
  "getUShort key dflt p = (case p (cstr key) of Some (PUShort v) \<Rightarrow> v | _ \<Rightarrow> dflt)"

text \<open>The operator \<^verbatim>\<open>&&\<close> over writes: the right-hand write runs only if the left side held.\<close>

definition and_put ::
  "bool \<times> preferences \<Rightarrow> (preferences \<Rightarrow> nat \<times> preferences) \<Rightarrow> bool \<times> preferences" where
  "and_put r w =
     (case r of (ok, p) \<Rightarrow>
        if ok then (case w p of (n, p') \<Rightarrow> (n \<noteq> 0, p')) else (False, p))"

definition begin_esp32 :: "nvs_device \<Rightarrow> preferences Storage \<Rightarrow> bool \<times> preferences Storage" where
  "begin_esp32 dev s =
     (if initialized s then (True, s)
      else let s1 = s\<lparr>initialized := open_ok dev\<rparr> in
        if \<not> initialized s1 then (False, s1\<lparr>lastError := NOT_INITIALIZED\<rparr>)
        else (True, s1\<lparr>lastError := NONE\<rparr>))"

definition saveConfig_esp32 ::
  "nvs_device \<Rightarrow> preferences Storage \<Rightarrow> configuration \<Rightarrow> bool \<times> preferences Storage" where
  "saveConfig_esp32 dev s cfg =
     (if \<not> initialized s then (False, s\<lparr>lastError := NOT_INITIALIZED\<rparr>)
      else
        let cfg_with_checksum = cfg\<lparr>checksum := calculateChecksum cfg\<rparr> in
        case and_put (and_put (and_put (and_put (and_put (True, backend s)
               (putString dev (c_str ''name'') (name cfg)))
               (putString dev (c_str ''location'') (location cfg)))
               (putString dev (c_str ''wifi_ssid'') (wifi_ssid cfg)))
               (putString dev (c_str ''wifi_pwd'') (wifi_pwd cfg)))
               (putUShort dev (c_str ''checksum'') (checksum cfg_with_checksum))
        of (success, p) \<Rightarrow>
          if \<not> success then (False, s\<lparr>backend := p, lastError := WRITE_FAILED\<rparr>)
          else (True, s\<lparr>backend := p, lastError := NONE\<rparr>))"

definition loadConfig_esp32 ::
  "preferences Storage \<Rightarrow> configuration \<Rightarrow> bool \<times> preferences Storage \<times> configuration" where
  "loadConfig_esp32 s cfg =
     (if \<not> initialized s then (False, s\<lparr>lastError := NOT_INITIALIZED\<rparr>, cfg)
      else
        let p = backend s;
            nm = getString (c_str ''name'') [] p
        in if length nm = 0 then (False, s\<lparr>lastError := VALIDATION_FAILED\<rparr>, cfg)
           else
             let cfg1 = cfg\<lparr>name := strlcpy (name cfg) nm FIELD_SIZE\<rparr>;
                 cfg2 = cfg1\<lparr>location :=
                          strlcpy (location cfg1) (getString (c_str ''location'') [] p) FIELD_SIZE\<rparr>;
                 cfg3 = cfg2\<lparr>wifi_ssid :=
                          strlcpy (wifi_ssid cfg2) (getString (c_str ''wifi_ssid'') [] p) FIELD_SIZE\<rparr>;
                 cfg4 = cfg3\<lparr>wifi_pwd :=
                          strlcpy (wifi_pwd cfg3) (getString (c_str ''wifi_pwd'') [] p) FIELD_SIZE\<rparr>;
                 cfg5 = cfg4\<lparr>checksum := getUShort (c_str ''checksum'') 0 p\<rparr>;
                 loaded_checksum = checksum cfg5;
                 cfg6 = cfg5\<lparr>checksum := 0\<rparr>;
                 calculated_checksum = calculateChecksum cfg6
             in if loaded_checksum \<noteq> calculated_checksum
                then (False, s\<lparr>lastError := VALIDATION_FAILED\<rparr>, cfg6)
                else if strlen (wifi_ssid cfg6) = 0 \<or> strlen (wifi_pwd cfg6) = 0
                then (False, s\<lparr>lastError := VALIDATION_FAILED\<rparr>, cfg6)
                else (True, s\<lparr>lastError := NONE\<rparr>, cfg6))"

definition updateField_esp32 ::
  "nvs_device \<Rightarrow> preferences Storage \<Rightarrow> byte list \<Rightarrow> byte list \<Rightarrow> bool \<times> preferences Storage" where
  "updateField_esp32 dev s field val =
     (if \<not> initialized s then (False, s\<lparr>lastError := NOT_INITIALIZED\<rparr>)
      else
        case putString dev field val (backend s) of (n, p) \<Rightarrow>
          if n = 0 then (False, s\<lparr>backend := p, lastError := WRITE_FAILED\<rparr>)
          else (True, s\<lparr>backend := p, lastError := NONE\<rparr>))"

definition clear_esp32 :: "nvs_device \<Rightarrow> preferences Storage \<Rightarrow> bool \<times> preferences Storage" where
  "clear_esp32 dev s =
     (if \<not> initialized s then (False, s\<lparr>lastError := NOT_INITIALIZED\<rparr>)
      else if clear_ok dev then (True, s\<lparr>backend := Map.empty\<rparr>) else (False, s))"

section \<open>Concrete states and records\<close>

text \<open>
  The state at power-on (\<^verbatim>\<open>storage.cpp\<close>: \<open>initialized = false\<close>,
  \<open>lastError = NONE\<close>) over an all-zero image and over an empty namespace, and the record
  of the specification's scenario in zero-filled buffers.
\<close>

definition boot_esp8266 :: "eeprom Storage" where
  "boot_esp8266 = \<lparr>backend = (\<lambda>a. 0), initialized = False, lastError = NONE\<rparr>"

definition boot_esp32 :: "preferences Storage" where
  "boot_esp32 = \<lparr>backend = Map.empty, initialized = False, lastError = NONE\<rparr>"

definition sensor1_cfg :: configuration where
  "sensor1_cfg =
     \<lparr>location = field20 ''lab'', name = field20 ''sensor1'', wifi_ssid = field20 ''NET'',
      wifi_pwd = field20 ''pw1234'', checksum = 0\<rparr>"

text \<open>
  An initialised block-storage state whose image holds the marker 1 and the scenario record
  with a stored checksum of 7 (the bytes of the record add up to 1682).
\<close>

definition corrupt_esp8266 :: "eeprom Storage" where
  "corrupt_esp8266 =
     \<lparr>backend = eeprom_put sound_device (EEPROM_START + 1) (sensor1_cfg\<lparr>checksum := 7\<rparr>)
                  ((\<lambda>a. 0)(EEPROM_START := 1)),
      initialized = True, lastError = NONE\<rparr>"

text \<open>The scenario record with a checksum field that is not zero.\<close>

definition stale_cfg :: configuration where
  "stale_cfg = sensor1_cfg\<lparr>checksum := 1\<rparr>"

text \<open>The scenario record with an empty name.\<close>

definition noname_cfg :: configuration where
  "noname_cfg = sensor1_cfg\<lparr>name := field20 []\<rparr>"

section \<open>Bytes and checksums\<close>

text \<open>
  The loop adds the bytes up; the sum of the record's bytes is the sum over the record with a
  zero checksum field plus the two bytes of the field, so the two agree exactly when the
  field is 0. The 82 bytes of a record cannot make the 16-bit sum wrap.
\<close>

lemma checksum_loop_sum: "checksum_loop bs acc = acc + sum_list (map ucast bs)"
  by (induction bs arbitrary: acc) (simp_all add: add.assoc)

lemma u16_of_bytes [simp]: "u16_of (ucast w) (ucast (drop_bit 8 w)) = w"
  unfolding u16_of_def
  by (rule bit_word_eqI) (auto simp add: bit_simps)

lemma unat_byte_lt: "unat (b :: byte) < 256"
  using unsigned_less [of b, where 'a = nat] by simp

lemma unat_ucast_byte: "unat (ucast (b :: byte) :: 16 word) = unat b"
  using unat_byte_lt [of b] by (simp add: unsigned_ucast_eq take_bit_nat_eq_self)

lemma byte_sum_zero:
  "ucast (lo :: byte) + ucast (hi :: byte) = (0 :: 16 word) \<longleftrightarrow> lo = 0 \<and> hi = 0"
proof
  assume h: "ucast lo + ucast hi = (0 :: 16 word)"
  have "unat (ucast lo + ucast hi :: 16 word) = unat lo + unat hi"
    using unat_byte_lt [of lo] unat_byte_lt [of hi]
    by (simp add: unat_add_lem [THEN iffD1] unat_ucast_byte)
  with h have "unat lo = 0" "unat hi = 0" by simp_all
  thus "lo = 0 \<and> hi = 0" by (simp add: unat_eq_zero)
qed simp

lemma u16_bytes_zero_sum:
  "(ucast (ucast w :: byte) + ucast (ucast (drop_bit 8 w) :: byte) = (0::16 word)) \<longleftrightarrow> w = 0"
  for w :: "16 word"
proof -
  have "u16_of (ucast w) (ucast (drop_bit 8 w)) = w" by (rule u16_of_bytes)
  moreover have "u16_of 0 0 = 0" by (simp add: u16_of_def)
  ultimately have "(ucast w :: byte) = 0 \<and> (ucast (drop_bit 8 w) :: byte) = 0 \<longleftrightarrow> w = 0"
    by (metis ucast_0 drop_bit_of_0)
  thus ?thesis by (simp only: byte_sum_zero)
qed

lemma calculateChecksum_split:
  "calculateChecksum cfg =
     calculateChecksum (cfg\<lparr>checksum := 0\<rparr>) + (ucast (ucast (checksum cfg) :: byte) + ucast (ucast (drop_bit 8 (checksum cfg)) :: byte))"
  by (simp add: calculateChecksum_def to_bytes_def checksum_loop_sum u16_bytes_def)

lemma calculateChecksum_zeroed_eq:
  "calculateChecksum cfg = calculateChecksum (cfg\<lparr>checksum := 0\<rparr>) \<longleftrightarrow> checksum cfg = 0"
  using u16_bytes_zero_sum[of "checksum cfg"]
  by (subst calculateChecksum_split) simp

lemma of_bytes_to_bytes: "wf_cfg c \<Longrightarrow> of_bytes (to_bytes c) = c"
  by (simp add: wf_cfg_def FIELD_SIZE_def of_bytes_def to_bytes_def u16_bytes_def nth_append)

lemma length_to_bytes: "wf_cfg c \<Longrightarrow> length (to_bytes c) = CONFIG_SIZE"
  by (simp add: wf_cfg_def FIELD_SIZE_def CONFIG_SIZE_def to_bytes_def u16_bytes_def)

lemma wf_cfg_checksum_update [simp]: "wf_cfg (c\<lparr>checksum := w\<rparr>) = wf_cfg c"
  by (simp add: wf_cfg_def)




section \<open>C strings\<close>

text \<open>
  The string of a buffer holds no NUL, and \<open>strlcpy\<close> leaves a terminated string of at
  most \<open>n - 1\<close> characters in a buffer of unchanged length.
\<close>

lemma cstr_idem [simp]: "cstr (cstr b) = cstr b"
  by (simp add: cstr_def)

lemma cstr_no_nul: "0 \<notin> set (cstr b)"
  by (auto simp: cstr_def dest: set_takeWhileD)

lemma cstr_terminated: "0 \<notin> set s \<Longrightarrow> cstr (s @ 0 # rest) = s"
  by (induction s) (simp_all add: cstr_def)

lemma cstr_strlcpy: "0 < n \<Longrightarrow> cstr (strlcpy dst src n) = take (n - 1) (cstr src)"
proof -
  assume n: "0 < n"
  have "0 \<notin> set (take (n - 1) (cstr src))"
    using cstr_no_nul [of src] by (auto dest: in_set_takeD)
  thus ?thesis using n by (simp add: strlcpy_def Let_def cstr_terminated)
qed

lemma strlcpy_cstr [simp]: "strlcpy dst (cstr src) n = strlcpy dst src n"
  by (simp add: strlcpy_def)

lemma length_strlcpy: "length dst = n \<Longrightarrow> 0 < n \<Longrightarrow> length (strlcpy dst src n) = n"
  by (auto simp add: strlcpy_def Let_def)

lemma strlcpy_terminated: "0 < n \<Longrightarrow> 0 \<in> set (strlcpy dst src n)"
  by (simp add: strlcpy_def Let_def)

lemma strlen_strlcpy: "0 < n \<Longrightarrow> strlen (strlcpy dst src n) = min (n - 1) (strlen src)"
  by (simp add: strlen_def cstr_strlcpy)

section \<open>The EEPROM image\<close>

text \<open>
  On a sound device \<open>get\<close> reads back what \<open>put\<close> wrote, and \<open>put\<close> leaves the
  cells below its address alone.
\<close>

lemma sound_device_simps [simp]: "commit_ok sound_device" "cell sound_device = (\<lambda>a b. b)"
  by (simp_all add: sound_device_def)

lemma put_bytes_below: "a' < a \<Longrightarrow> eeprom_put_bytes dev a bs m a' = m a'"
  by (induction bs arbitrary: a m) (simp_all add: eeprom_write_def)

lemma put_bytes_sound_nth:
  "cell dev = (\<lambda>a b. b) \<Longrightarrow> i < length bs \<Longrightarrow> eeprom_put_bytes dev a bs m (a + i) = bs ! i"
proof (induction bs arbitrary: a m i)
  case Nil thus ?case by simp
next
  case (Cons b bs)
  show ?case
  proof (cases i)
    case 0 thus ?thesis using Cons.prems by (simp add: put_bytes_below eeprom_write_def)
  next
    case (Suc j)
    hence "eeprom_put_bytes dev (Suc a) bs (eeprom_write dev a b m) (Suc a + j) = bs ! j"
      using Cons.prems by (intro Cons.IH) simp_all
    thus ?thesis using Suc by simp
  qed
qed

lemma put_bytes_sound_read:
  "cell dev = (\<lambda>a b. b) \<Longrightarrow> map (eeprom_put_bytes dev a bs m) [a ..< a + length bs] = bs"
  by (rule nth_equalityI) (simp_all add: put_bytes_sound_nth)

lemma eeprom_get_put:
  "cell dev = (\<lambda>a b. b) \<Longrightarrow> wf_cfg c \<Longrightarrow> eeprom_get a (eeprom_put dev a c m) = c"
  using put_bytes_sound_read [of dev a "to_bytes c" m]
  by (simp add: eeprom_get_def eeprom_put_def length_to_bytes of_bytes_to_bytes)

lemma eeprom_put_below: "a' < a \<Longrightarrow> eeprom_put dev a c m a' = m a'"
  by (simp add: eeprom_put_def put_bytes_below)

lemma map_upt_zero:
  "(\<forall>a. lo \<le> a \<and> a < hi \<longrightarrow> m a = (0 :: byte)) \<Longrightarrow> map m [lo ..< hi] = replicate (hi - lo) 0"
  by (rule nth_equalityI) simp_all

lemma of_bytes_zero: "of_bytes (replicate 82 0) = uninit_cfg"
  by (simp add: of_bytes_def uninit_cfg_def u16_of_def)

lemma eeprom_get_zero:
  assumes "\<forall>a. EEPROM_START < a \<and> a \<le> EEPROM_START + CONFIG_SIZE \<longrightarrow> m a = 0"
  shows "eeprom_get (EEPROM_START + 1) m = uninit_cfg"
proof -
  have "\<forall>a. 129 \<le> a \<and> a < 211 \<longrightarrow> m a = 0"
    using assms by (simp add: EEPROM_START_def CONFIG_SIZE_def)
  hence "map m [129 ..< 211] = replicate (211 - 129) 0" by (rule map_upt_zero)
  hence "map m [EEPROM_START + 1 ..< EEPROM_START + 1 + CONFIG_SIZE] = replicate 82 0"
    by (simp only: EEPROM_START_def CONFIG_SIZE_def) simp
  thus ?thesis by (simp only: eeprom_get_def of_bytes_zero)
qed

lemma stuck_marker_reads_zero:
  "eeprom_read EEPROM_START (eeprom_put stuck_marker_device (EEPROM_START + 1) c
     (eeprom_write stuck_marker_device EEPROM_START 1 m)) = 0"
  by (simp add: eeprom_read_def eeprom_put_below eeprom_write_def stuck_marker_device_def)

section \<open>Block storage: saving and loading\<close>

text \<open>
  What \<open>saveConfig\<close> leaves on a sound device, what \<open>loadConfig\<close> makes of a stored
  record, and the two in sequence.
\<close>

lemma begin_esp8266_initialized: "initialized (snd (begin_esp8266 s))"
  by (simp add: begin_esp8266_def)

lemma saveConfig_esp8266_sound:
  assumes "initialized s" "commit_ok dev" "cell dev = (\<lambda>a b. b)" "wf_cfg cfg"
  shows "saveConfig_esp8266 dev s cfg =
     (True, s\<lparr>backend := eeprom_put dev (EEPROM_START + 1) (cfg\<lparr>checksum := calculateChecksum cfg\<rparr>)
                 (eeprom_write dev EEPROM_START 1 (backend s)),
              lastError := NONE\<rparr>)"
  using assms
  by (simp add: saveConfig_esp8266_def Let_def eeprom_get_put eeprom_read_def eeprom_put_below
      eeprom_write_def EEPROM_START_def strcmp0_def)

lemma saved_state_initialized:
  "initialized s \<Longrightarrow> initialized (snd (saveConfig_esp8266 dev s cfg))"
  by (simp add: saveConfig_esp8266_def Let_def)

lemma saved_checksum_esp8266:
  assumes "initialized s" "commit_ok dev" "cell dev = (\<lambda>a b. b)" "wf_cfg cfg"
  shows "checksum (eeprom_get (EEPROM_START + 1) (backend (snd (saveConfig_esp8266 dev s cfg))))
         = calculateChecksum cfg"
  using assms by (simp add: saveConfig_esp8266_sound eeprom_get_put)

lemma loadConfig_esp8266_stored:
  assumes "initialized s" "backend s EEPROM_START = 1"
    and "eeprom_get (EEPROM_START + 1) (backend s) = c"
  shows "loadConfig_esp8266 s out =
     (if checksum c \<noteq> calculateChecksum (c\<lparr>checksum := 0\<rparr>)
        \<or> strlen (wifi_ssid c) = 0 \<or> strlen (wifi_pwd c) = 0
      then (False, s\<lparr>lastError := VALIDATION_FAILED\<rparr>, c\<lparr>checksum := 0\<rparr>)
      else (True, s\<lparr>lastError := NONE\<rparr>, c\<lparr>checksum := 0\<rparr>))"
  using assms by (simp add: loadConfig_esp8266_def Let_def eeprom_read_def)

lemma loadConfig_esp8266_backend:
  "backend (fst (snd (loadConfig_esp8266 s out))) = backend s \<and>
   initialized (fst (snd (loadConfig_esp8266 s out))) = initialized s"
  by (simp add: loadConfig_esp8266_def Let_def)

lemma load_after_save_esp8266:
  assumes "initialized s" "commit_ok dev" "cell dev = (\<lambda>a b. b)" "wf_cfg cfg"
  shows "loadConfig_esp8266 (snd (saveConfig_esp8266 dev s cfg)) out =
     (if checksum cfg \<noteq> 0 \<or> strlen (wifi_ssid cfg) = 0 \<or> strlen (wifi_pwd cfg) = 0
      then (False, (snd (saveConfig_esp8266 dev s cfg))\<lparr>lastError := VALIDATION_FAILED\<rparr>, cfg\<lparr>checksum := 0\<rparr>)
      else (True, snd (saveConfig_esp8266 dev s cfg), cfg\<lparr>checksum := 0\<rparr>))"
proof -
  let ?s' = "snd (saveConfig_esp8266 dev s cfg)"
  let ?c = "cfg\<lparr>checksum := calculateChecksum cfg\<rparr>"
  have s': "?s' = s\<lparr>backend := eeprom_put dev (EEPROM_START + 1) ?c
                 (eeprom_write dev EEPROM_START 1 (backend s)), lastError := NONE\<rparr>"
    using assms by (simp add: saveConfig_esp8266_sound)
  have i: "initialized ?s'" using assms s' by simp
  have m: "backend ?s' EEPROM_START = 1"
    using assms by (simp add: s' eeprom_put_below eeprom_write_def)
  have g: "eeprom_get (EEPROM_START + 1) (backend ?s') = ?c"
    using assms by (simp add: s' eeprom_get_put)
  have e: "?s'\<lparr>lastError := NONE\<rparr> = ?s'" by (simp add: s')
  show ?thesis
    using calculateChecksum_zeroed_eq [of cfg]
    by (simp add: loadConfig_esp8266_stored [OF i m g] e)
qed

lemma updateField_esp8266_name:
  assumes "initialized s" and "loadConfig_esp8266 s uninit_cfg = (True, s1, cfg)"
  shows "updateField_esp8266 dev s (c_str ''name'') val =
     (fst (saveConfig_esp8266 dev s1 (cfg\<lparr>name := strlcpy (name cfg) val FIELD_SIZE\<rparr>)),
      (snd (saveConfig_esp8266 dev s1 (cfg\<lparr>name := strlcpy (name cfg) val FIELD_SIZE\<rparr>)))
        \<lparr>lastError := NONE\<rparr>)"
  using assms by (simp add: updateField_esp8266_def strcmp0_def split: prod.splits)

section \<open>Key-value store: saving and loading\<close>

text \<open>
  The five keys are distinct strings; a save that succeeds stores the four strings and the
  checksum under them.
\<close>

lemma sound_nvs_simps [simp]: "open_ok sound_nvs" "put_ok sound_nvs k" "clear_ok sound_nvs"
  by (simp_all add: sound_nvs_def)

lemma key_bytes:
  "c_str ''name'' = [110, 97, 109, 101]"
  "c_str ''location'' = [108, 111, 99, 97, 116, 105, 111, 110]"
  "c_str ''wifi_ssid'' = [119, 105, 102, 105, 95, 115, 115, 105, 100]"
  "c_str ''wifi_pwd'' = [119, 105, 102, 105, 95, 112, 119, 100]"
  "c_str ''checksum'' = [99, 104, 101, 99, 107, 115, 117, 109]"
  "c_str ''bogus_field'' = [98, 111, 103, 117, 115, 95, 102, 105, 101, 108, 100]"
  "c_str ''x'' = [120]"
  by (simp_all add: c_str_def)

lemma key_cstr [simp]:
  "cstr (c_str ''name'') = c_str ''name''"
  "cstr (c_str ''location'') = c_str ''location''"
  "cstr (c_str ''wifi_ssid'') = c_str ''wifi_ssid''"
  "cstr (c_str ''wifi_pwd'') = c_str ''wifi_pwd''"
  "cstr (c_str ''checksum'') = c_str ''checksum''"
  "cstr (c_str ''bogus_field'') = c_str ''bogus_field''"
  "cstr (c_str ''x'') = c_str ''x''"
  by (simp_all add: key_bytes cstr_def)


lemma saveConfig_esp32_sound:
  assumes "initialized t" "\<forall>k. put_ok dev k"
    and "strlen (name cfg) \<noteq> 0" "strlen (location cfg) \<noteq> 0"
    and "strlen (wifi_ssid cfg) \<noteq> 0" "strlen (wifi_pwd cfg) \<noteq> 0"
  shows "saveConfig_esp32 dev t cfg =
     (True, t\<lparr>backend := (backend t)
                 (c_str ''name'' \<mapsto> PString (cstr (name cfg)),
                  c_str ''location'' \<mapsto> PString (cstr (location cfg)),
                  c_str ''wifi_ssid'' \<mapsto> PString (cstr (wifi_ssid cfg)),
                  c_str ''wifi_pwd'' \<mapsto> PString (cstr (wifi_pwd cfg)),
                  c_str ''checksum'' \<mapsto> PUShort (calculateChecksum cfg)),
              lastError := NONE\<rparr>)"
  using assms
  by (simp add: saveConfig_esp32_def Let_def and_put_def putString_def putUShort_def)

lemma saved_prefs_lookup:
  assumes "q = p(c_str ''name'' \<mapsto> PString n, c_str ''location'' \<mapsto> PString l,
       c_str ''wifi_ssid'' \<mapsto> PString s, c_str ''wifi_pwd'' \<mapsto> PString w,
       c_str ''checksum'' \<mapsto> PUShort c)"
  shows "getString (c_str ''name'') d q = cstr n"
    and "getString (c_str ''location'') d q = cstr l"
    and "getString (c_str ''wifi_ssid'') d q = cstr s"
    and "getString (c_str ''wifi_pwd'') d q = cstr w"
    and "getUShort (c_str ''checksum'') e q = c"
  by (simp_all add: assms getString_def getUShort_def key_bytes cstr_def)


lemma load_after_save_esp32:
  assumes "initialized t" "\<forall>k. put_ok dev k"
    and "strlen (name cfg) \<noteq> 0" "strlen (location cfg) \<noteq> 0"
    and "strlen (wifi_ssid cfg) \<noteq> 0" "strlen (wifi_pwd cfg) \<noteq> 0"
    and "checksum cfg = 0"
    and "strlcpy (name out) (name cfg) FIELD_SIZE = name cfg"
    and "strlcpy (location out) (location cfg) FIELD_SIZE = location cfg"
    and "strlcpy (wifi_ssid out) (wifi_ssid cfg) FIELD_SIZE = wifi_ssid cfg"
    and "strlcpy (wifi_pwd out) (wifi_pwd cfg) FIELD_SIZE = wifi_pwd cfg"
  shows "loadConfig_esp32 (snd (saveConfig_esp32 dev t cfg)) out =
     (True, snd (saveConfig_esp32 dev t cfg), cfg)"
proof -
  let ?t' = "snd (saveConfig_esp32 dev t cfg)"
  have sv: "saveConfig_esp32 dev t cfg = (True, t\<lparr>backend := (backend t)
                 (c_str ''name'' \<mapsto> PString (cstr (name cfg)),
                  c_str ''location'' \<mapsto> PString (cstr (location cfg)),
                  c_str ''wifi_ssid'' \<mapsto> PString (cstr (wifi_ssid cfg)),
                  c_str ''wifi_pwd'' \<mapsto> PString (cstr (wifi_pwd cfg)),
                  c_str ''checksum'' \<mapsto> PUShort (calculateChecksum cfg)),
              lastError := NONE\<rparr>)"
    using assms(1-6) by (rule saveConfig_esp32_sound)
  have i: "initialized ?t'" using assms(1) by (simp add: sv)
  have e: "?t'\<lparr>lastError := NONE\<rparr> = ?t'" by (simp add: sv)
  note lk = saved_prefs_lookup [OF refl, of _ "backend t" "cstr (name cfg)" "cstr (location cfg)"
      "cstr (wifi_ssid cfg)" "cstr (wifi_pwd cfg)" "calculateChecksum cfg"]
  have g: "getString (c_str ''name'') [] (backend ?t') = cstr (name cfg)"
    "getString (c_str ''location'') [] (backend ?t') = cstr (location cfg)"
    "getString (c_str ''wifi_ssid'') [] (backend ?t') = cstr (wifi_ssid cfg)"
    "getString (c_str ''wifi_pwd'') [] (backend ?t') = cstr (wifi_pwd cfg)"
    "getUShort (c_str ''checksum'') 0 (backend ?t') = calculateChecksum cfg"
    using lk by (simp_all add: sv)
  have n: "length (cstr (name cfg)) \<noteq> 0" using assms(3) by (simp add: strlen_def)
  have r: "out\<lparr>name := name cfg, location := location cfg, wifi_ssid := wifi_ssid cfg,
              wifi_pwd := wifi_pwd cfg, checksum := 0\<rparr> = cfg"
    using assms(7) by (cases cfg) simp
  show ?thesis
    using i n assms(5,6)
    by (simp add: loadConfig_esp32_def Let_def g assms(8-11) r e)
qed

section \<open>The concrete states and records\<close>

text \<open>
  Values of the scenario record and of the states defined above.
\<close>

lemma zeros20:
  "replicate 20 (0 :: byte) = [0, 0, 0, 0, 0, 0, 0, 0, 0, 0, 0, 0, 0, 0, 0, 0, 0, 0, 0, 0]"
  by (simp add: numeral_eq_Suc)

lemma field20_values:
  "field20 ''lab'' = [108, 97, 98, 0, 0, 0, 0, 0, 0, 0, 0, 0, 0, 0, 0, 0, 0, 0, 0, 0]"
  "field20 ''sensor1'' = [115, 101, 110, 115, 111, 114, 49, 0, 0, 0, 0, 0, 0, 0, 0, 0, 0, 0, 0, 0]"
  "field20 ''NET'' = [78, 69, 84, 0, 0, 0, 0, 0, 0, 0, 0, 0, 0, 0, 0, 0, 0, 0, 0, 0]"
  "field20 ''pw1234'' = [112, 119, 49, 50, 51, 52, 0, 0, 0, 0, 0, 0, 0, 0, 0, 0, 0, 0, 0, 0]"
  "field20 [] = [0, 0, 0, 0, 0, 0, 0, 0, 0, 0, 0, 0, 0, 0, 0, 0, 0, 0, 0, 0]"
  by (simp_all add: field20_def c_str_def numeral_eq_Suc)

lemma wf_sensor1: "wf_cfg sensor1_cfg"
  by (simp add: wf_cfg_def sensor1_cfg_def field20_values FIELD_SIZE_def)

lemma strlen_sensor1: "strlen (wifi_ssid sensor1_cfg) = 3" "strlen (wifi_pwd sensor1_cfg) = 6"
  "strlen (name sensor1_cfg) = 7" "strlen (location sensor1_cfg) = 3"
  by (simp_all add: sensor1_cfg_def field20_values strlen_def cstr_def)

lemma cs_sensor1: "calculateChecksum sensor1_cfg = 1682"
  by (simp add: calculateChecksum_def to_bytes_def sensor1_cfg_def field20_values u16_bytes_def)

lemma sensor1_checksum_zeroed: "sensor1_cfg\<lparr>checksum := 0\<rparr> = sensor1_cfg"
  by (simp add: sensor1_cfg_def)

lemma calculateChecksum_uninit: "calculateChecksum uninit_cfg = 0"
  by (simp add: calculateChecksum_def to_bytes_def uninit_cfg_def u16_bytes_def checksum_loop_sum
      sum_list_replicate)

lemma strlen_uninit: "strlen (wifi_ssid uninit_cfg) = 0"
  by (simp add: uninit_cfg_def strlen_def cstr_def numeral_eq_Suc)

lemma strlcpy_sensor1_uninit:
  "strlcpy (name uninit_cfg) (name sensor1_cfg) FIELD_SIZE = name sensor1_cfg"
  "strlcpy (location uninit_cfg) (location sensor1_cfg) FIELD_SIZE = location sensor1_cfg"
  "strlcpy (wifi_ssid uninit_cfg) (wifi_ssid sensor1_cfg) FIELD_SIZE = wifi_ssid sensor1_cfg"
  "strlcpy (wifi_pwd uninit_cfg) (wifi_pwd sensor1_cfg) FIELD_SIZE = wifi_pwd sensor1_cfg"
  by (simp_all add: uninit_cfg_def sensor1_cfg_def field20_values strlcpy_def cstr_def
      FIELD_SIZE_def zeros20)

lemma noname_facts:
  "strlen (name noname_cfg) = 0" "strlen (wifi_ssid noname_cfg) = 3"
  "strlen (wifi_pwd noname_cfg) = 6" "checksum noname_cfg = 0" "wf_cfg noname_cfg"
  using wf_sensor1
  by (simp_all add: noname_cfg_def strlen_sensor1 field20_values strlen_def cstr_def wf_cfg_def
      sensor1_cfg_def FIELD_SIZE_def)

lemma noname_checksum_zeroed: "noname_cfg\<lparr>checksum := 0\<rparr> = noname_cfg"
  by (simp add: noname_cfg_def sensor1_cfg_def)

lemma stale_cfg_facts:
  "wf_cfg stale_cfg" "checksum stale_cfg = 1" "stale_cfg\<lparr>checksum := 0\<rparr> = sensor1_cfg"
  "calculateChecksum stale_cfg = 1683"
  "strlen (wifi_ssid stale_cfg) = 3" "strlen (wifi_pwd stale_cfg) = 6"
  using wf_sensor1 calculateChecksum_split [of stale_cfg]
  by (simp_all add: stale_cfg_def wf_cfg_def sensor1_checksum_zeroed cs_sensor1 strlen_sensor1)

lemma begin_boot_esp8266:
  "begin_esp8266 boot_esp8266 = (True, \<lparr>backend = (\<lambda>a. 0), initialized = True, lastError = NONE\<rparr>)"
  by (simp add: begin_esp8266_def boot_esp8266_def)

lemma begin_boot_esp32:
  "begin_esp32 sound_nvs boot_esp32 = (True, \<lparr>backend = Map.empty, initialized = True, lastError = NONE\<rparr>)"
  by (simp add: begin_esp32_def boot_esp32_def sound_nvs_def)

lemma corrupt_esp8266_image:
  "initialized corrupt_esp8266"
  "backend corrupt_esp8266 EEPROM_START = 1"
  "eeprom_get (EEPROM_START + 1) (backend corrupt_esp8266) = sensor1_cfg\<lparr>checksum := 7\<rparr>"
  by (simp_all add: corrupt_esp8266_def eeprom_put_below eeprom_get_put wf_sensor1)

lemma load_saved_sensor1:
  "loadConfig_esp8266
     (snd (saveConfig_esp8266 sound_device (snd (begin_esp8266 boot_esp8266)) sensor1_cfg)) out =
   (True, snd (saveConfig_esp8266 sound_device (snd (begin_esp8266 boot_esp8266)) sensor1_cfg),
    sensor1_cfg)"
proof -
  have i: "initialized (snd (begin_esp8266 boot_esp8266))" by (simp add: begin_boot_esp8266)
  have c: "checksum sensor1_cfg = 0" by (simp add: sensor1_cfg_def)
  show ?thesis
    using load_after_save_esp8266 [OF i, of sound_device sensor1_cfg out]
    by (simp add: wf_sensor1 strlen_sensor1 c sensor1_checksum_zeroed)
qed

section \<open>Initialisation\<close>

text \<open>
  C10. On the block-storage build \<open>begin\<close> returns true from every state and leaves the
  storage initialised: \<open>initialized\<close> is set to true right after the backend is opened,
  so the branch that reports \<open>NOT_INITIALIZED\<close> cannot be taken.
\<close>

theorem begin_esp8266_always_true:
  "fst (begin_esp8266 s) \<and> initialized (snd (begin_esp8266 s))"
  by (simp add: begin_esp8266_def Let_def)

text \<open>
  C9. Before \<open>begin\<close>, every other operation of either build returns false, reports
  \<open>NOT_INITIALIZED\<close> and leaves the backend, the initialisation flag and the caller's
  record as they were.
\<close>

theorem not_initialized_fail_fast:
  assumes "\<not> initialized s" and "\<not> initialized t"
  shows "saveConfig_esp8266 dev s cfg = (False, s\<lparr>lastError := NOT_INITIALIZED\<rparr>) \<and>
     loadConfig_esp8266 s cfg = (False, s\<lparr>lastError := NOT_INITIALIZED\<rparr>, cfg) \<and>
     updateField_esp8266 dev s field val = (False, s\<lparr>lastError := NOT_INITIALIZED\<rparr>) \<and>
     clear_esp8266 dev s = (False, s\<lparr>lastError := NOT_INITIALIZED\<rparr>) \<and>
     saveConfig_esp32 nvs t cfg = (False, t\<lparr>lastError := NOT_INITIALIZED\<rparr>) \<and>
     loadConfig_esp32 t cfg = (False, t\<lparr>lastError := NOT_INITIALIZED\<rparr>, cfg) \<and>
     updateField_esp32 nvs t field val = (False, t\<lparr>lastError := NOT_INITIALIZED\<rparr>) \<and>
     clear_esp32 nvs t = (False, t\<lparr>lastError := NOT_INITIALIZED\<rparr>)"
  using assms
  by (simp add: saveConfig_esp8266_def loadConfig_esp8266_def updateField_esp8266_def
      clear_esp8266_def saveConfig_esp32_def loadConfig_esp32_def updateField_esp32_def
      clear_esp32_def)

theorem not_initialized_fail_fast_witness:
  "\<not> initialized boot_esp8266 \<and> \<not> initialized boot_esp32 \<and>
   saveConfig_esp8266 sound_device boot_esp8266 sensor1_cfg =
     (False, boot_esp8266\<lparr>lastError := NOT_INITIALIZED\<rparr>) \<and>
   loadConfig_esp8266 boot_esp8266 sensor1_cfg =
     (False, boot_esp8266\<lparr>lastError := NOT_INITIALIZED\<rparr>, sensor1_cfg) \<and>
   updateField_esp8266 sound_device boot_esp8266 (c_str ''name'') (c_str ''x'') =
     (False, boot_esp8266\<lparr>lastError := NOT_INITIALIZED\<rparr>) \<and>
   clear_esp8266 sound_device boot_esp8266 = (False, boot_esp8266\<lparr>lastError := NOT_INITIALIZED\<rparr>) \<and>
   saveConfig_esp32 sound_nvs boot_esp32 sensor1_cfg =
     (False, boot_esp32\<lparr>lastError := NOT_INITIALIZED\<rparr>) \<and>
   loadConfig_esp32 boot_esp32 sensor1_cfg =
     (False, boot_esp32\<lparr>lastError := NOT_INITIALIZED\<rparr>, sensor1_cfg) \<and>
   updateField_esp32 sound_nvs boot_esp32 (c_str ''name'') (c_str ''x'') =
     (False, boot_esp32\<lparr>lastError := NOT_INITIALIZED\<rparr>) \<and>
   clear_esp32 sound_nvs boot_esp32 = (False, boot_esp32\<lparr>lastError := NOT_INITIALIZED\<rparr>)"
proof -
  have a: "\<not> initialized boot_esp8266" by (simp add: boot_esp8266_def)
  have b: "\<not> initialized boot_esp32" by (simp add: boot_esp32_def)
  show ?thesis
    using a b not_initialized_fail_fast [OF a b, of sound_device sensor1_cfg "c_str ''name''" "c_str ''x''" sound_nvs]
    by simp
qed

section \<open>Loading\<close>

text \<open>
  C6. Erased storage is rejected. On the block-storage build, an initialised storage whose
  record bytes are all zero makes \<open>loadConfig\<close> return false with \<open>VALIDATION_FAILED\<close>,
  whatever the marker byte holds: with the marker at 0 the marker test rejects it, and with
  the marker at 1 the checksum test passes (0 = 0) and the test of the WiFi fields rejects it.
  On the key-value build, a namespace in which the name is absent or empty is rejected by the
  test of the name, and the caller's record is not touched.
\<close>

theorem erased_storage_rejected:
  assumes "initialized s"
    and "\<forall>a. EEPROM_START < a \<and> a \<le> EEPROM_START + CONFIG_SIZE \<longrightarrow> backend s a = 0"
    and "initialized t"
    and "getString (c_str ''name'') [] (backend t) = []"
  shows "\<not> fst (loadConfig_esp8266 s out) \<and>
         fst (snd (loadConfig_esp8266 s out)) = s\<lparr>lastError := VALIDATION_FAILED\<rparr> \<and>
         loadConfig_esp32 t out = (False, t\<lparr>lastError := VALIDATION_FAILED\<rparr>, out)"
proof -
  have g: "eeprom_get (EEPROM_START + 1) (backend s) = uninit_cfg"
    using assms(2) by (rule eeprom_get_zero)
  have z: "uninit_cfg\<lparr>checksum := 0\<rparr> = uninit_cfg" by (simp add: uninit_cfg_def)
  have "\<not> fst (loadConfig_esp8266 s out) \<and>
        fst (snd (loadConfig_esp8266 s out)) = s\<lparr>lastError := VALIDATION_FAILED\<rparr>"
    using assms(1)
    by (simp add: loadConfig_esp8266_def Let_def z calculateChecksum_uninit strlen_uninit
        g [simplified])
  moreover have "loadConfig_esp32 t out = (False, t\<lparr>lastError := VALIDATION_FAILED\<rparr>, out)"
    using assms(3,4) by (simp add: loadConfig_esp32_def Let_def)
  ultimately show ?thesis by simp
qed

theorem erased_storage_rejected_witness:
  "initialized (snd (begin_esp8266 boot_esp8266)) \<and>
   backend (snd (begin_esp8266 boot_esp8266)) = (\<lambda>a. 0) \<and>
   initialized (snd (begin_esp32 sound_nvs boot_esp32)) \<and>
   getString (c_str ''name'') [] (backend (snd (begin_esp32 sound_nvs boot_esp32))) = [] \<and>
   \<not> fst (loadConfig_esp8266 (snd (begin_esp8266 boot_esp8266)) sensor1_cfg) \<and>
   lastError (fst (snd (loadConfig_esp8266 (snd (begin_esp8266 boot_esp8266)) sensor1_cfg)))
     = VALIDATION_FAILED \<and>
   loadConfig_esp32 (snd (begin_esp32 sound_nvs boot_esp32)) sensor1_cfg =
     (False, (snd (begin_esp32 sound_nvs boot_esp32))\<lparr>lastError := VALIDATION_FAILED\<rparr>, sensor1_cfg)"
proof -
  let ?s = "snd (begin_esp8266 boot_esp8266)" and ?t = "snd (begin_esp32 sound_nvs boot_esp32)"
  have a: "initialized ?s" by (simp add: begin_boot_esp8266)
  have b: "\<forall>a. EEPROM_START < a \<and> a \<le> EEPROM_START + CONFIG_SIZE \<longrightarrow> backend ?s a = 0"
    by (simp add: begin_boot_esp8266)
  have c: "initialized ?t" by (simp add: begin_boot_esp32)
  have d: "getString (c_str ''name'') [] (backend ?t) = []"
    by (simp add: begin_boot_esp32 getString_def cstr_def)
  have e: "backend ?s = (\<lambda>a. 0)" by (simp add: begin_boot_esp8266)
  show ?thesis
    using a c d e erased_storage_rejected [OF a b c d, of sensor1_cfg] by simp
qed

text \<open>
  C5. A failed checksum test on the block-storage build. The claim that the caller's record
  is not mutated fails: \<open>eeprom.get\<close> reads into the caller's record before the checksum is
  tested. What holds: when the marker is set and the stored checksum differs from the
  recomputed one, \<open>loadConfig\<close> returns false with \<open>VALIDATION_FAILED\<close>, the storage is
  otherwise unchanged, and the caller's record holds the stored record with its checksum
  field set to zero. When the marker is not set, the caller's record is left as it was.
\<close>

theorem failed_checksum_load_result:
  assumes "initialized s"
  shows "(eeprom_read EEPROM_START (backend s) = 1 \<and>
          checksum (eeprom_get (EEPROM_START + 1) (backend s)) \<noteq>
            calculateChecksum ((eeprom_get (EEPROM_START + 1) (backend s))\<lparr>checksum := 0\<rparr>) \<longrightarrow>
          loadConfig_esp8266 s out =
            (False, s\<lparr>lastError := VALIDATION_FAILED\<rparr>,
             (eeprom_get (EEPROM_START + 1) (backend s))\<lparr>checksum := 0\<rparr>)) \<and>
         (eeprom_read EEPROM_START (backend s) \<noteq> 1 \<longrightarrow>
          loadConfig_esp8266 s out = (False, s\<lparr>lastError := VALIDATION_FAILED\<rparr>, out))"
  using assms by (simp add: loadConfig_esp8266_def Let_def)

theorem failed_checksum_load_result_witness:
  "initialized corrupt_esp8266 \<and> eeprom_read EEPROM_START (backend corrupt_esp8266) = 1 \<and>
   checksum (eeprom_get (EEPROM_START + 1) (backend corrupt_esp8266)) \<noteq>
     calculateChecksum ((eeprom_get (EEPROM_START + 1) (backend corrupt_esp8266))\<lparr>checksum := 0\<rparr>) \<and>
   loadConfig_esp8266 corrupt_esp8266 uninit_cfg =
     (False, corrupt_esp8266\<lparr>lastError := VALIDATION_FAILED\<rparr>, sensor1_cfg) \<and>
   initialized (snd (begin_esp8266 boot_esp8266)) \<and>
   eeprom_read EEPROM_START (backend (snd (begin_esp8266 boot_esp8266))) \<noteq> 1 \<and>
   loadConfig_esp8266 (snd (begin_esp8266 boot_esp8266)) sensor1_cfg =
     (False, (snd (begin_esp8266 boot_esp8266))\<lparr>lastError := VALIDATION_FAILED\<rparr>, sensor1_cfg)"
proof -
  let ?s0 = "snd (begin_esp8266 boot_esp8266)"
  have a: "initialized corrupt_esp8266" by (rule corrupt_esp8266_image)
  have b: "eeprom_read EEPROM_START (backend corrupt_esp8266) = 1"
    by (simp add: eeprom_read_def corrupt_esp8266_image)
  have c: "checksum (eeprom_get (EEPROM_START + 1) (backend corrupt_esp8266)) \<noteq>
     calculateChecksum ((eeprom_get (EEPROM_START + 1) (backend corrupt_esp8266))\<lparr>checksum := 0\<rparr>)"
    by (simp add: corrupt_esp8266_image [simplified] sensor1_checksum_zeroed cs_sensor1)
  have g: "eeprom_get (EEPROM_START + 1) (backend corrupt_esp8266)\<lparr>checksum := 0\<rparr> = sensor1_cfg"
    by (simp add: corrupt_esp8266_image [simplified] sensor1_checksum_zeroed)
  have d: "initialized ?s0" by (rule begin_esp8266_initialized)
  have e: "eeprom_read EEPROM_START (backend ?s0) \<noteq> 1"
    by (simp add: eeprom_read_def begin_boot_esp8266)
  from failed_checksum_load_result [OF a, of uninit_cfg] b c g
  have l1: "loadConfig_esp8266 corrupt_esp8266 uninit_cfg =
     (False, corrupt_esp8266\<lparr>lastError := VALIDATION_FAILED\<rparr>, sensor1_cfg)"
    by simp
  from failed_checksum_load_result [OF d, of sensor1_cfg] e
  have l2: "loadConfig_esp8266 ?s0 sensor1_cfg =
     (False, ?s0\<lparr>lastError := VALIDATION_FAILED\<rparr>, sensor1_cfg)"
    by blast
  from a b c d e l1 l2 show ?thesis by blast
qed

theorem failed_load_overwrites_out_counterexample:
  "checksum (eeprom_get (EEPROM_START + 1) (backend corrupt_esp8266)) \<noteq>
     calculateChecksum ((eeprom_get (EEPROM_START + 1) (backend corrupt_esp8266))\<lparr>checksum := 0\<rparr>) \<and>
   loadConfig_esp8266 corrupt_esp8266 uninit_cfg =
     (False, corrupt_esp8266\<lparr>lastError := VALIDATION_FAILED\<rparr>, sensor1_cfg) \<and>
   sensor1_cfg \<noteq> uninit_cfg"
proof -
  have n: "sensor1_cfg \<noteq> uninit_cfg"
  proof
    assume "sensor1_cfg = uninit_cfg"
    hence "strlen (wifi_ssid sensor1_cfg) = strlen (wifi_ssid uninit_cfg)" by simp
    thus False by (simp add: strlen_sensor1 strlen_uninit)
  qed
  show ?thesis
    by (simp add: loadConfig_esp8266_stored [OF corrupt_esp8266_image]
        corrupt_esp8266_image [simplified] sensor1_checksum_zeroed cs_sensor1 n)
qed

section \<open>Saving\<close>

text \<open>
  C8. Read-back verification on the block-storage build. \<open>written\<close> is the image after
  the marker and the record with its checksum have been written, and \<open>matches\<close> says that
  reading it back gives the marker 1, the written checksum, and four buffers whose strings
  are those of the caller's record. \<open>saveConfig\<close> returns true only if the commit
  succeeded and the read-back matches; a mismatch makes it return false; and whenever it
  returns false the last error is not \<open>NONE\<close> (\<open>WRITE_FAILED\<close> for a mismatch after a
  successful commit). On a device that stores what is written and commits, saving a record
  of terminated strings returns true, so the verification can be passed.
\<close>

theorem saveConfig_esp8266_read_back:
  "(let r = saveConfig_esp8266 dev s cfg;
        written = eeprom_put dev (EEPROM_START + 1) (cfg\<lparr>checksum := calculateChecksum cfg\<rparr>)
                    (eeprom_write dev EEPROM_START 1 (backend s));
        verify_cfg = eeprom_get (EEPROM_START + 1) written;
        matches = (eeprom_read EEPROM_START written = 1 \<and>
                   checksum verify_cfg = calculateChecksum cfg \<and>
                   cstr (name cfg) = cstr (name verify_cfg) \<and>
                   cstr (location cfg) = cstr (location verify_cfg) \<and>
                   cstr (wifi_ssid cfg) = cstr (wifi_ssid verify_cfg) \<and>
                   cstr (wifi_pwd cfg) = cstr (wifi_pwd verify_cfg))
    in (fst r \<longrightarrow> backend (snd r) = written \<and> commit_ok dev \<and> matches) \<and>
       (\<not> matches \<longrightarrow> \<not> fst r) \<and>
       (\<not> fst r \<longrightarrow> lastError (snd r) \<noteq> NONE) \<and>
       (initialized s \<and> commit_ok dev \<and> \<not> matches \<longrightarrow> lastError (snd r) = WRITE_FAILED) \<and>
       (initialized s \<and> commit_ok dev \<and> cell dev = (\<lambda>a b. b) \<and> wf_cfg cfg \<longrightarrow> fst r))"
proof -
  have sound: "fst (saveConfig_esp8266 dev s cfg)"
    if "initialized s" "commit_ok dev" "cell dev = (\<lambda>a b. b)" "wf_cfg cfg"
    using that by (simp add: saveConfig_esp8266_sound)
  have branches:
    "let r = saveConfig_esp8266 dev s cfg;
         written = eeprom_put dev (EEPROM_START + 1) (cfg\<lparr>checksum := calculateChecksum cfg\<rparr>)
                     (eeprom_write dev EEPROM_START 1 (backend s));
         verify_cfg = eeprom_get (EEPROM_START + 1) written;
         matches = (eeprom_read EEPROM_START written = 1 \<and>
                    checksum verify_cfg = calculateChecksum cfg \<and>
                    cstr (name cfg) = cstr (name verify_cfg) \<and>
                    cstr (location cfg) = cstr (location verify_cfg) \<and>
                    cstr (wifi_ssid cfg) = cstr (wifi_ssid verify_cfg) \<and>
                    cstr (wifi_pwd cfg) = cstr (wifi_pwd verify_cfg))
     in (fst r \<longrightarrow> backend (snd r) = written \<and> commit_ok dev \<and> matches) \<and>
        (\<not> matches \<longrightarrow> \<not> fst r) \<and>
        (\<not> fst r \<longrightarrow> lastError (snd r) \<noteq> NONE) \<and>
        (initialized s \<and> commit_ok dev \<and> \<not> matches \<longrightarrow> lastError (snd r) = WRITE_FAILED)"
    by (simp add: saveConfig_esp8266_def Let_def strcmp0_def)
  have last: "initialized s \<and> commit_ok dev \<and> cell dev = (\<lambda>a b. b) \<and> wf_cfg cfg \<longrightarrow>
      fst (saveConfig_esp8266 dev s cfg)"
    using sound by blast
  from branches last show ?thesis
    unfolding Let_def by (intro conjI) (elim conjE, assumption)+
qed

theorem saveConfig_esp8266_read_back_witness:
  "fst (saveConfig_esp8266 sound_device (snd (begin_esp8266 boot_esp8266)) sensor1_cfg) \<and>
   eeprom_read EEPROM_START
     (backend (snd (saveConfig_esp8266 sound_device (snd (begin_esp8266 boot_esp8266)) sensor1_cfg))) = 1 \<and>
   checksum (eeprom_get (EEPROM_START + 1)
     (backend (snd (saveConfig_esp8266 sound_device (snd (begin_esp8266 boot_esp8266)) sensor1_cfg))))
     = calculateChecksum sensor1_cfg \<and>
   \<not> fst (saveConfig_esp8266 stuck_marker_device (snd (begin_esp8266 boot_esp8266)) sensor1_cfg) \<and>
   lastError (snd (saveConfig_esp8266 stuck_marker_device (snd (begin_esp8266 boot_esp8266)) sensor1_cfg))
     = WRITE_FAILED"
proof -
  let ?s = "snd (begin_esp8266 boot_esp8266)"
  have i: "initialized ?s" by (simp add: begin_boot_esp8266)
  have ok: "fst (saveConfig_esp8266 sound_device ?s sensor1_cfg)"
    using i by (simp add: saveConfig_esp8266_sound wf_sensor1)
  have c: "commit_ok stuck_marker_device" by (simp add: stuck_marker_device_def)
  show ?thesis
    using ok i c
      saveConfig_esp8266_read_back [of sound_device ?s sensor1_cfg]
      saveConfig_esp8266_read_back [of stuck_marker_device ?s sensor1_cfg]
    by (simp add: Let_def stuck_marker_reads_zero del: One_nat_def)
qed

section \<open>The last error\<close>

text \<open>
  C4. The claim that an operation returns false exactly when the last error afterwards is
  not \<open>NONE\<close> fails: \<open>begin\<close> on an initialised storage returns true at once and leaves
  whatever error an earlier operation recorded. What holds: for \<open>saveConfig\<close> and
  \<open>loadConfig\<close> on both builds, for \<open>updateField\<close> on the key-value build and for
  \<open>begin\<close> on a storage that is not yet initialised, the result is false exactly when
  the last error afterwards is not \<open>NONE\<close>; \<open>updateField\<close> on the block-storage build
  leaves \<open>NONE\<close> whenever it returns true; \<open>begin\<close> on an initialised storage returns
  true and changes nothing.
\<close>

theorem last_error_iff_failure:
  "(\<not> fst (saveConfig_esp8266 dev s cfg) \<longleftrightarrow>
      getLastError (snd (saveConfig_esp8266 dev s cfg)) \<noteq> NONE) \<and>
   (\<not> fst (loadConfig_esp8266 s cfg) \<longleftrightarrow>
      getLastError (fst (snd (loadConfig_esp8266 s cfg))) \<noteq> NONE) \<and>
   (\<not> fst (saveConfig_esp32 nvs t cfg) \<longleftrightarrow>
      getLastError (snd (saveConfig_esp32 nvs t cfg)) \<noteq> NONE) \<and>
   (\<not> fst (loadConfig_esp32 t cfg) \<longleftrightarrow>
      getLastError (fst (snd (loadConfig_esp32 t cfg))) \<noteq> NONE) \<and>
   (\<not> fst (updateField_esp32 nvs t field val) \<longleftrightarrow>
      getLastError (snd (updateField_esp32 nvs t field val)) \<noteq> NONE) \<and>
   (fst (updateField_esp8266 dev s field val) \<longrightarrow>
      getLastError (snd (updateField_esp8266 dev s field val)) = NONE) \<and>
   (\<not> initialized s \<longrightarrow>
      fst (begin_esp8266 s) \<and> getLastError (snd (begin_esp8266 s)) = NONE) \<and>
   (\<not> initialized t \<longrightarrow>
      (\<not> fst (begin_esp32 nvs t) \<longleftrightarrow> getLastError (snd (begin_esp32 nvs t)) \<noteq> NONE)) \<and>
   (initialized s \<longrightarrow> begin_esp8266 s = (True, s)) \<and>
   (initialized t \<longrightarrow> begin_esp32 nvs t = (True, t))"
proof -
  have a: "\<not> fst (saveConfig_esp8266 dev s cfg) \<longleftrightarrow>
      getLastError (snd (saveConfig_esp8266 dev s cfg)) \<noteq> NONE"
    by (simp add: saveConfig_esp8266_def Let_def getLastError_def)
  have b: "\<not> fst (loadConfig_esp8266 s cfg) \<longleftrightarrow>
      getLastError (fst (snd (loadConfig_esp8266 s cfg))) \<noteq> NONE"
    by (simp add: loadConfig_esp8266_def Let_def getLastError_def)
  have c: "\<not> fst (saveConfig_esp32 nvs t cfg) \<longleftrightarrow>
      getLastError (snd (saveConfig_esp32 nvs t cfg)) \<noteq> NONE"
    by (simp add: saveConfig_esp32_def Let_def getLastError_def split: prod.splits)
  have d: "\<not> fst (loadConfig_esp32 t cfg) \<longleftrightarrow>
      getLastError (fst (snd (loadConfig_esp32 t cfg))) \<noteq> NONE"
    by (simp add: loadConfig_esp32_def Let_def getLastError_def)
  have e: "\<not> fst (updateField_esp32 nvs t field val) \<longleftrightarrow>
      getLastError (snd (updateField_esp32 nvs t field val)) \<noteq> NONE"
    by (simp add: updateField_esp32_def getLastError_def split: prod.splits)
  have f: "fst (updateField_esp8266 dev s field val) \<longrightarrow>
      getLastError (snd (updateField_esp8266 dev s field val)) = NONE"
    by (auto simp add: updateField_esp8266_def getLastError_def Let_def
        split: prod.splits option.splits if_splits)
  have g: "\<not> initialized s \<longrightarrow>
      fst (begin_esp8266 s) \<and> getLastError (snd (begin_esp8266 s)) = NONE"
    by (simp add: begin_esp8266_def getLastError_def)
  have h: "\<not> initialized t \<longrightarrow>
      (\<not> fst (begin_esp32 nvs t) \<longleftrightarrow> getLastError (snd (begin_esp32 nvs t)) \<noteq> NONE)"
    by (simp add: begin_esp32_def getLastError_def Let_def)
  have i: "initialized s \<longrightarrow> begin_esp8266 s = (True, s)"
    by (simp add: begin_esp8266_def)
  have j: "initialized t \<longrightarrow> begin_esp32 nvs t = (True, t)"
    by (simp add: begin_esp32_def)
  from a b c d e f g h i j show ?thesis by blast
qed

theorem last_error_iff_failure_witness:
  "\<not> initialized boot_esp8266 \<and> fst (begin_esp8266 boot_esp8266) \<and>
   getLastError (snd (begin_esp8266 boot_esp8266)) = NONE \<and>
   \<not> initialized boot_esp32 \<and>
   \<not> fst (begin_esp32 (sound_nvs\<lparr>open_ok := False\<rparr>) boot_esp32) \<and>
   getLastError (snd (begin_esp32 (sound_nvs\<lparr>open_ok := False\<rparr>) boot_esp32)) \<noteq> NONE \<and>
   initialized (snd (begin_esp32 sound_nvs boot_esp32)) \<and>
   begin_esp32 sound_nvs (snd (begin_esp32 sound_nvs boot_esp32)) =
     (True, snd (begin_esp32 sound_nvs boot_esp32)) \<and>
   initialized (snd (saveConfig_esp8266 sound_device (snd (begin_esp8266 boot_esp8266)) sensor1_cfg)) \<and>
   begin_esp8266 (snd (saveConfig_esp8266 sound_device (snd (begin_esp8266 boot_esp8266)) sensor1_cfg)) =
     (True, snd (saveConfig_esp8266 sound_device (snd (begin_esp8266 boot_esp8266)) sensor1_cfg)) \<and>
   fst (updateField_esp8266 sound_device
     (snd (saveConfig_esp8266 sound_device (snd (begin_esp8266 boot_esp8266)) sensor1_cfg))
     (c_str ''name'') (c_str ''x'')) \<and>
   getLastError (snd (updateField_esp8266 sound_device
     (snd (saveConfig_esp8266 sound_device (snd (begin_esp8266 boot_esp8266)) sensor1_cfg))
     (c_str ''name'') (c_str ''x''))) = NONE"
proof -
  let ?s0 = "snd (begin_esp8266 boot_esp8266)"
  let ?s1 = "snd (saveConfig_esp8266 sound_device ?s0 sensor1_cfg)"
  let ?t0 = "snd (begin_esp32 sound_nvs boot_esp32)"
  let ?c = "sensor1_cfg\<lparr>name := strlcpy (name sensor1_cfg) (c_str ''x'') FIELD_SIZE\<rparr>"
  have a: "\<not> initialized boot_esp8266" by (simp add: boot_esp8266_def)
  have b: "\<not> initialized boot_esp32" by (simp add: boot_esp32_def)
  have c: "initialized ?t0" by (simp add: begin_boot_esp32)
  have d: "initialized ?s1" by (simp add: saved_state_initialized begin_boot_esp8266)
  have w: "wf_cfg ?c"
    using wf_sensor1 by (simp add: wf_cfg_def length_strlcpy strlcpy_terminated FIELD_SIZE_def)
  have e: "fst (updateField_esp8266 sound_device ?s1 (c_str ''name'') (c_str ''x''))"
    by (simp add: updateField_esp8266_name [OF d load_saved_sensor1]
        saveConfig_esp8266_sound [OF d _ _ w])
  show ?thesis
    using a b c d e
      last_error_iff_failure [of sound_device boot_esp8266 sensor1_cfg
        "sound_nvs\<lparr>open_ok := False\<rparr>" boot_esp32 "c_str ''name''" "c_str ''x''"]
      last_error_iff_failure [of sound_device ?s1 sensor1_cfg sound_nvs ?t0
        "c_str ''name''" "c_str ''x''"]
    by (simp add: begin_esp32_def boot_esp32_def getLastError_def)
qed

theorem stale_error_after_begin_counterexample:
  "fst (begin_esp8266 (fst (snd (loadConfig_esp8266 (snd (begin_esp8266 boot_esp8266)) uninit_cfg)))) \<and>
   getLastError (snd (begin_esp8266
      (fst (snd (loadConfig_esp8266 (snd (begin_esp8266 boot_esp8266)) uninit_cfg)))))
     = VALIDATION_FAILED"
proof -
  have l: "loadConfig_esp8266 (snd (begin_esp8266 boot_esp8266)) uninit_cfg =
      (False, \<lparr>backend = (\<lambda>a. 0), initialized = True, lastError = VALIDATION_FAILED\<rparr>, uninit_cfg)"
    by (simp add: begin_boot_esp8266 loadConfig_esp8266_def eeprom_read_def)
  have g: "\<And>s. initialized s \<Longrightarrow> begin_esp8266 s = (True, s)"
    by (simp add: begin_esp8266_def)
  show ?thesis
    by (simp add: l g getLastError_def)
qed

section \<open>Saving and loading again\<close>




text \<open>
  C2. The zeroing discipline of the checksum. \<open>loadConfig\<close> sets the checksum field to 0
  before it recomputes; \<open>saveConfig\<close> calls \<open>calculateChecksum\<close> on the caller's
  record as it is, so the two bytes of the caller's checksum field go into the sum. For the
  scenario record with its checksum field at 1, \<open>saveConfig\<close> succeeds and stores 1683,
  \<open>loadConfig\<close> recomputes 1682 and returns false with \<open>VALIDATION_FAILED\<close>. After a
  successful load (the scenario record itself) the checksum field handed back is 0, not the
  computed value.
\<close>

theorem stale_checksum_breaks_load:
  "fst (saveConfig_esp8266 sound_device (snd (begin_esp8266 boot_esp8266)) stale_cfg) \<and>
   checksum (eeprom_get (EEPROM_START + 1)
     (backend (snd (saveConfig_esp8266 sound_device (snd (begin_esp8266 boot_esp8266)) stale_cfg))))
     = 1683 \<and>
   calculateChecksum (stale_cfg\<lparr>checksum := 0\<rparr>) = 1682 \<and>
   \<not> fst (loadConfig_esp8266
     (snd (saveConfig_esp8266 sound_device (snd (begin_esp8266 boot_esp8266)) stale_cfg))
     uninit_cfg) \<and>
   getLastError (fst (snd (loadConfig_esp8266
     (snd (saveConfig_esp8266 sound_device (snd (begin_esp8266 boot_esp8266)) stale_cfg))
     uninit_cfg))) = VALIDATION_FAILED \<and>
   checksum (snd (snd (loadConfig_esp8266
     (snd (saveConfig_esp8266 sound_device (snd (begin_esp8266 boot_esp8266)) sensor1_cfg))
     uninit_cfg))) = 0"
proof -
  let ?s0 = "snd (begin_esp8266 boot_esp8266)"
  have i: "initialized ?s0" by (rule begin_esp8266_initialized)
  have d: "commit_ok sound_device" "cell sound_device = (\<lambda>a b. b)" by simp_all
  have a: "fst (saveConfig_esp8266 sound_device ?s0 stale_cfg)"
    by (simp add: saveConfig_esp8266_sound [OF i d stale_cfg_facts(1)])
  have b: "checksum (eeprom_get (EEPROM_START + 1)
      (backend (snd (saveConfig_esp8266 sound_device ?s0 stale_cfg)))) = 1683"
    by (simp only: saved_checksum_esp8266 [OF i d stale_cfg_facts(1)] stale_cfg_facts(4))
  have c: "calculateChecksum (stale_cfg\<lparr>checksum := 0\<rparr>) = 1682"
    by (simp add: stale_cfg_facts cs_sensor1)
  have l: "loadConfig_esp8266 (snd (saveConfig_esp8266 sound_device ?s0 stale_cfg)) uninit_cfg =
      (False, (snd (saveConfig_esp8266 sound_device ?s0 stale_cfg))\<lparr>lastError := VALIDATION_FAILED\<rparr>,
       sensor1_cfg)"
    using load_after_save_esp8266 [OF i d stale_cfg_facts(1), of uninit_cfg]
    by (simp add: stale_cfg_facts)
  have z: "checksum sensor1_cfg = 0" by (simp add: sensor1_cfg_def)
  show ?thesis
    using a b c by (simp add: l load_saved_sensor1 getLastError_def z)
qed

section \<open>What a loaded record satisfies\<close>

text \<open>
  C7. The name after a successful load. The claim that the name is never empty fails on the
  block-storage build, which tests the marker, the checksum and the WiFi fields but not the
  name: the scenario record with an empty name is saved and loaded back. What holds: on the
  key-value build a successful \<open>loadConfig\<close> hands back a non-empty name; on both builds
  it hands back non-empty WiFi fields, and on the block-storage build the marker is 1.
\<close>

theorem loaded_record_fields:
  "(fst (loadConfig_esp32 t out) \<longrightarrow>
      strlen (name (snd (snd (loadConfig_esp32 t out)))) \<noteq> 0 \<and>
      strlen (wifi_ssid (snd (snd (loadConfig_esp32 t out)))) \<noteq> 0 \<and>
      strlen (wifi_pwd (snd (snd (loadConfig_esp32 t out)))) \<noteq> 0) \<and>
   (fst (loadConfig_esp8266 s out) \<longrightarrow>
      eeprom_read EEPROM_START (backend s) = 1 \<and>
      strlen (wifi_ssid (snd (snd (loadConfig_esp8266 s out)))) \<noteq> 0 \<and>
      strlen (wifi_pwd (snd (snd (loadConfig_esp8266 s out)))) \<noteq> 0)"
proof -
  have n: "strlen (getString k d p) = length (getString k d p)" for k d p
    by (simp add: getString_def strlen_def)
  have a: "fst (loadConfig_esp32 t out) \<longrightarrow>
      strlen (name (snd (snd (loadConfig_esp32 t out)))) \<noteq> 0 \<and>
      strlen (wifi_ssid (snd (snd (loadConfig_esp32 t out)))) \<noteq> 0 \<and>
      strlen (wifi_pwd (snd (snd (loadConfig_esp32 t out)))) \<noteq> 0"
    by (simp add: loadConfig_esp32_def Let_def strlen_strlcpy FIELD_SIZE_def n)
  have b: "fst (loadConfig_esp8266 s out) \<longrightarrow>
      eeprom_read EEPROM_START (backend s) = 1 \<and>
      strlen (wifi_ssid (snd (snd (loadConfig_esp8266 s out)))) \<noteq> 0 \<and>
      strlen (wifi_pwd (snd (snd (loadConfig_esp8266 s out)))) \<noteq> 0"
    by (simp add: loadConfig_esp8266_def Let_def)
  from a b show ?thesis by simp
qed

theorem loaded_record_fields_witness:
  "fst (loadConfig_esp32
     (snd (saveConfig_esp32 sound_nvs (snd (begin_esp32 sound_nvs boot_esp32)) sensor1_cfg))
     uninit_cfg) \<and>
   strlen (name (snd (snd (loadConfig_esp32
     (snd (saveConfig_esp32 sound_nvs (snd (begin_esp32 sound_nvs boot_esp32)) sensor1_cfg))
     uninit_cfg)))) \<noteq> 0 \<and>
   fst (loadConfig_esp8266
     (snd (saveConfig_esp8266 sound_device (snd (begin_esp8266 boot_esp8266)) sensor1_cfg))
     uninit_cfg) \<and>
   strlen (wifi_ssid (snd (snd (loadConfig_esp8266
     (snd (saveConfig_esp8266 sound_device (snd (begin_esp8266 boot_esp8266)) sensor1_cfg))
     uninit_cfg)))) \<noteq> 0"
proof -
  let ?t1 = "snd (saveConfig_esp32 sound_nvs (snd (begin_esp32 sound_nvs boot_esp32)) sensor1_cfg)"
  let ?s1 = "snd (saveConfig_esp8266 sound_device (snd (begin_esp8266 boot_esp8266)) sensor1_cfg)"
  have j: "initialized (snd (begin_esp32 sound_nvs boot_esp32))" by (simp add: begin_boot_esp32)
  have v: "\<forall>k. put_ok sound_nvs k" by simp
  have c: "checksum sensor1_cfg = 0" by (simp add: sensor1_cfg_def)
  have n: "strlen (name sensor1_cfg) \<noteq> 0" "strlen (location sensor1_cfg) \<noteq> 0"
    "strlen (wifi_ssid sensor1_cfg) \<noteq> 0" "strlen (wifi_pwd sensor1_cfg) \<noteq> 0"
    by (simp_all add: strlen_sensor1)
  have a: "fst (loadConfig_esp32 ?t1 uninit_cfg)"
    by (simp add: load_after_save_esp32 [OF j v n c strlcpy_sensor1_uninit])
  have b: "fst (loadConfig_esp8266 ?s1 uninit_cfg)" by (simp add: load_saved_sensor1)
  show ?thesis
    using a b loaded_record_fields [of ?t1 uninit_cfg ?s1] by simp
qed

theorem empty_name_loads_counterexample:
  "fst (loadConfig_esp8266
     (snd (saveConfig_esp8266 sound_device (snd (begin_esp8266 boot_esp8266)) noname_cfg))
     uninit_cfg) \<and>
   strlen (name (snd (snd (loadConfig_esp8266
     (snd (saveConfig_esp8266 sound_device (snd (begin_esp8266 boot_esp8266)) noname_cfg))
     uninit_cfg)))) = 0"
proof -
  have i: "initialized (snd (begin_esp8266 boot_esp8266))" by (rule begin_esp8266_initialized)
  have d: "commit_ok sound_device" "cell sound_device = (\<lambda>a b. b)" by simp_all
  show ?thesis
    using load_after_save_esp8266 [OF i d noname_facts(5), of uninit_cfg]
    by (simp add: noname_facts noname_checksum_zeroed)
qed

section \<open>Updating one field\<close>

text \<open>
  C3. \<open>updateField\<close> with a field name other than \<open>name\<close>, \<open>location\<close>,
  \<open>wifi_ssid\<close> and \<open>wifi_pwd\<close>. The claim fails on both builds: the key-value build
  passes any key to \<open>putString\<close> and returns true, and the block-storage build reports
  the failure of the load that comes first when storage holds no valid record. What holds:
  on the block-storage build the call returns false and leaves the image and the
  initialisation flag as they were, and the last error is \<open>NOT_INITIALIZED\<close> before
  \<open>begin\<close>, \<open>VALIDATION_FAILED\<close> when the stored record does not load, and
  \<open>INVALID_FIELD\<close> otherwise. On the key-value build an initialised storage writes the
  value under the given key and returns true with \<open>NONE\<close> when the write succeeds with a
  non-empty value, and the last error is never \<open>INVALID_FIELD\<close>.
\<close>

theorem unknown_field_update:
  assumes "cstr field \<notin> {c_str ''name'', c_str ''location'', c_str ''wifi_ssid'', c_str ''wifi_pwd''}"
  shows "\<not> fst (updateField_esp8266 dev s field val) \<and>
         backend (snd (updateField_esp8266 dev s field val)) = backend s \<and>
         initialized (snd (updateField_esp8266 dev s field val)) = initialized s \<and>
         lastError (snd (updateField_esp8266 dev s field val)) =
           (if \<not> initialized s then NOT_INITIALIZED
            else if \<not> fst (loadConfig_esp8266 s uninit_cfg) then VALIDATION_FAILED
            else INVALID_FIELD) \<and>
         (initialized t \<and> put_ok nvs (cstr field) \<and> strlen val \<noteq> 0 \<longrightarrow>
            updateField_esp32 nvs t field val =
              (True, t\<lparr>backend := (backend t)(cstr field \<mapsto> PString (cstr val)),
                       lastError := NONE\<rparr>)) \<and>
         lastError (snd (updateField_esp32 nvs t field val)) \<noteq> INVALID_FIELD"
proof -
  have k: "\<not> strcmp0 field (c_str ''name'')" "\<not> strcmp0 field (c_str ''location'')"
    "\<not> strcmp0 field (c_str ''wifi_ssid'')" "\<not> strcmp0 field (c_str ''wifi_pwd'')"
    using assms by (simp_all add: strcmp0_def)
  have u: "updateField_esp8266 dev s field val =
      (if \<not> initialized s then (False, s\<lparr>lastError := NOT_INITIALIZED\<rparr>)
       else if \<not> fst (loadConfig_esp8266 s uninit_cfg)
         then (False, fst (snd (loadConfig_esp8266 s uninit_cfg)))
       else (False, (fst (snd (loadConfig_esp8266 s uninit_cfg)))\<lparr>lastError := INVALID_FIELD\<rparr>))"
    by (simp add: updateField_esp8266_def k split: prod.splits)
  have v: "\<not> fst (loadConfig_esp8266 s uninit_cfg) \<Longrightarrow> initialized s \<Longrightarrow>
      lastError (fst (snd (loadConfig_esp8266 s uninit_cfg))) = VALIDATION_FAILED"
    by (simp add: loadConfig_esp8266_def Let_def split: if_splits)
  have A: "\<not> fst (updateField_esp8266 dev s field val) \<and>
         backend (snd (updateField_esp8266 dev s field val)) = backend s \<and>
         initialized (snd (updateField_esp8266 dev s field val)) = initialized s \<and>
         lastError (snd (updateField_esp8266 dev s field val)) =
           (if \<not> initialized s then NOT_INITIALIZED
            else if \<not> fst (loadConfig_esp8266 s uninit_cfg) then VALIDATION_FAILED
            else INVALID_FIELD)"
    using v by (simp add: u loadConfig_esp8266_backend)
  have B: "initialized t \<and> put_ok nvs (cstr field) \<and> strlen val \<noteq> 0 \<longrightarrow>
            updateField_esp32 nvs t field val =
              (True, t\<lparr>backend := (backend t)(cstr field \<mapsto> PString (cstr val)),
                       lastError := NONE\<rparr>)"
    by (simp add: updateField_esp32_def putString_def)
  have C: "lastError (snd (updateField_esp32 nvs t field val)) \<noteq> INVALID_FIELD"
    by (simp add: updateField_esp32_def putString_def)
  from A B C show ?thesis by simp
qed

theorem unknown_field_update_witness:
  "cstr (c_str ''bogus_field'') \<notin>
     {c_str ''name'', c_str ''location'', c_str ''wifi_ssid'', c_str ''wifi_pwd''} \<and>
   \<not> fst (updateField_esp8266 sound_device
     (snd (saveConfig_esp8266 sound_device (snd (begin_esp8266 boot_esp8266)) sensor1_cfg))
     (c_str ''bogus_field'') (c_str ''x'')) \<and>
   lastError (snd (updateField_esp8266 sound_device
     (snd (saveConfig_esp8266 sound_device (snd (begin_esp8266 boot_esp8266)) sensor1_cfg))
     (c_str ''bogus_field'') (c_str ''x''))) = INVALID_FIELD \<and>
   backend (snd (updateField_esp8266 sound_device
     (snd (saveConfig_esp8266 sound_device (snd (begin_esp8266 boot_esp8266)) sensor1_cfg))
     (c_str ''bogus_field'') (c_str ''x''))) =
   backend (snd (saveConfig_esp8266 sound_device (snd (begin_esp8266 boot_esp8266)) sensor1_cfg)) \<and>
   initialized (snd (begin_esp32 sound_nvs boot_esp32)) \<and>
   strlen (c_str ''x'') \<noteq> 0 \<and>
   fst (updateField_esp32 sound_nvs (snd (begin_esp32 sound_nvs boot_esp32))
     (c_str ''bogus_field'') (c_str ''x''))"
proof -
  let ?s1 = "snd (saveConfig_esp8266 sound_device (snd (begin_esp8266 boot_esp8266)) sensor1_cfg)"
  let ?t0 = "snd (begin_esp32 sound_nvs boot_esp32)"
  have h: "cstr (c_str ''bogus_field'') \<notin>
     {c_str ''name'', c_str ''location'', c_str ''wifi_ssid'', c_str ''wifi_pwd''}"
    by (simp add: key_bytes cstr_def)
  have i: "initialized ?s1"
    by (simp add: saved_state_initialized begin_esp8266_initialized)
  have j: "initialized ?t0" by (simp add: begin_boot_esp32)
  have x: "strlen (c_str ''x'') \<noteq> 0" by (simp add: strlen_def key_bytes cstr_def)
  have l: "fst (loadConfig_esp8266 ?s1 uninit_cfg)" by (simp add: load_saved_sensor1)
  show ?thesis
    using h i j x l
      unknown_field_update [OF h, of sound_device ?s1 "c_str ''x''" ?t0 sound_nvs]
    by simp
qed

theorem bogus_field_counterexample:
  "updateField_esp32 sound_nvs (snd (begin_esp32 sound_nvs boot_esp32))
     (c_str ''bogus_field'') (c_str ''x'') =
     (True, \<lparr>backend = [c_str ''bogus_field'' \<mapsto> PString (c_str ''x'')],
             initialized = True, lastError = NONE\<rparr>) \<and>
   updateField_esp8266 sound_device (snd (begin_esp8266 boot_esp8266))
     (c_str ''bogus_field'') (c_str ''x'') =
     (False, \<lparr>backend = (\<lambda>a. 0), initialized = True, lastError = VALIDATION_FAILED\<rparr>)"
proof -
  have a: "updateField_esp32 sound_nvs \<lparr>backend = Map.empty, initialized = True, lastError = NONE\<rparr>
     (c_str ''bogus_field'') (c_str ''x'') =
     (True, \<lparr>backend = [c_str ''bogus_field'' \<mapsto> PString (c_str ''x'')],
             initialized = True, lastError = NONE\<rparr>)"
    by (simp add: updateField_esp32_def putString_def strlen_def) (simp add: key_bytes)
  have b: "updateField_esp8266 sound_device \<lparr>backend = (\<lambda>a. 0), initialized = True, lastError = NONE\<rparr>
     (c_str ''bogus_field'') (c_str ''x'') =
     (False, \<lparr>backend = (\<lambda>a. 0), initialized = True, lastError = VALIDATION_FAILED\<rparr>)"
    by (simp add: updateField_esp8266_def loadConfig_esp8266_def eeprom_read_def)
  show ?thesis by (simp add: begin_boot_esp32 begin_boot_esp8266 a b)
qed

end
